theory Spec2Isabelle
  imports Main "HOL-Library.Sublist"
begin

section \<open>Strings and the platform functions the component calls\<close>

text \<open>
  A JavaScript string is a \<^typ>\<open>string\<close>: one \<^typ>\<open>char\<close> per UTF-16 code unit.
  Every string literal of \<^verbatim>\<open>CoffeeCoreSite.tsx\<close> that the handlers use has code units below
  256 only (ASCII and the accented letters U+00E0, U+00E8, U+00F9), which is the range of
  \<^typ>\<open>char\<close>. No surrogate exists in this range, so \<^verbatim>\<open>encodeURIComponent\<close> never
  raises \<^verbatim>\<open>URIError\<close> on such a string and is modelled as a total function.
\<close>

definition a_grave :: char where
  "a_grave = CHR 0xE0"

definition e_grave :: char where
  "e_grave = CHR 0xE8"

definition u_grave :: char where
  "u_grave = CHR 0xF9"

text \<open>
  \<^verbatim>\<open>encodeURIComponent\<close> (ECMAScript, Encode with the unreserved set): letters, digits and
  \<^verbatim>\<open>- _ . ! ~ * ' ( )\<close> are kept, every other code unit is written as the
  percent-escaped octets of its UTF-8 form (one octet below U+0080, two up to U+07FF).
\<close>

definition uriUnescaped :: "char \<Rightarrow> bool" where
  "uriUnescaped c =
     (let n = (of_char c :: nat)
      in (65 \<le> n \<and> n \<le> 90) \<or> (97 \<le> n \<and> n \<le> 122) \<or> (48 \<le> n \<and> n \<le> 57)
         \<or> n \<in> set [45, 95, 46, 33, 126, 42, 39, 40, 41])"

definition hexDigit :: "nat \<Rightarrow> char" where
  "hexDigit n = (if n < 16 then ''0123456789ABCDEF'' ! n else CHR ''?'')"

definition percent :: "nat \<Rightarrow> string" where
  "percent b = [CHR ''%'', hexDigit (b div 16), hexDigit (b mod 16)]"

definition utf8 :: "nat \<Rightarrow> nat list" where
  "utf8 v = (if v < 128 then [v] else [192 + v div 64, 128 + v mod 64])"

definition encodeUnit :: "char \<Rightarrow> string" where
  "encodeUnit c = (if uriUnescaped c then [c] else concat (map percent (utf8 (of_char c))))"

definition encodeURIComponent :: "string \<Rightarrow> string" where
  "encodeURIComponent s = concat (map encodeUnit s)"

section \<open>The product catalog\<close>

datatype Status = presente | futuro

record Product =
  id' :: string
  name :: string
  status :: Status
  summary :: string
  tag :: string
  color :: string

definition polifenoli :: Product where
  "polifenoli =
     \<lparr>id' = ''polifenoli'',
      name = ''Polifenoli & Bioattivi (upcycled)'',
      status = presente,
      summary = ''Estratti ad alto valore da scarti di caff'' @ [e_grave]
                @ '' per nutraceutica, food & beverage e cosmetica.'',
      tag = ''Core'',
      color = ''bg-[#57992D]''\<rparr>"

definition pellet :: Product where
  "pellet =
     \<lparr>id' = ''pellet'',
      name = ''Pellet da scarti di caff'' @ [e_grave],
      status = futuro,
      summary = ''Combustibile sostenibile e tracciabile ottenuto dal residuo di lavorazione.'',
      tag = ''R&D'',
      color = ''bg-[#8E4A49]''\<rparr>"

definition bevande :: Product where
  "bevande =
     \<lparr>id' = ''bevande'',
      name = ''Bevande con bioattivi aggiunti'',
      status = futuro,
      summary = ''Linea di drink funzionali con antiossidanti naturali estratti dal caff''
                @ [e_grave, CHR ''.''],
      tag = ''R&D'',
      color = ''bg-[#3B7080]''\<rparr>"

definition oli_cosmesi :: Product where
  "oli_cosmesi =
     \<lparr>id' = ''oli-cosmesi'',
      name = ''Oli per la cosmesi'',
      status = futuro,
      summary = ''Oli e lipidi da fondi di caff'' @ [e_grave]
                @ '' per skincare e haircare con ingredienti circolari.'',
      tag = ''R&D'',
      color = ''bg-[#D8C27A]''\<rparr>"

definition products :: "Product list" where
  "products = [polifenoli, pellet, bevande, oli_cosmesi]"

section \<open>Component state, effects and pending requests\<close>

text \<open>
  A request is the argument of \<^verbatim>\<open>fetch\<close>. Its \<open>body\<close> is the object handed to
  \<^verbatim>\<open>JSON.stringify\<close>, as its fields in the order of the source. The field \<open>ts\<close> holds
  what \<^verbatim>\<open>new Date().toISOString()\<close> returned when the handler ran; the handlers take it
  as an argument.
\<close>

record request =
  url :: string
  "method" :: string
  headers :: "(string \<times> string) list"
  body :: "(string \<times> string) list"

definition notify :: "(string \<times> string) list \<Rightarrow> request" where
  "notify b =
     \<lparr>url = ''/api/notify'',
      method = ''POST'',
      headers = [(''Content-Type'', ''application/json'')],
      body = b\<rparr>"

text \<open>What a handler does to the world outside the four \<^verbatim>\<open>useState\<close> cells, in order.\<close>

datatype effect =
    Fetch request
  | SetLocationHref string
  | FormReset
  | Alert string

text \<open>
  \<^verbatim>\<open>fetch\<close> either resolves with a response, whose \<^verbatim>\<open>ok\<close> flag the handlers read, or
  rejects. The three cases are the spec's Delivered, Rejected and TransportFailed.
\<close>

datatype fetch_result = Response bool | NetworkError

datatype Outcome = Delivered | Rejected | TransportFailed

fun outcome :: "fetch_result \<Rightarrow> Outcome" where
  "outcome (Response ok) = (if ok then Delivered else Rejected)"
| "outcome NetworkError = TransportFailed"

text \<open>
  The rest of a handler after its \<^verbatim>\<open>await fetch(...)\<close>, with what its closure holds:
  the modal form's handler closes over the \<^verbatim>\<open>clickedProduct\<close> of the render it was
  created in.
\<close>

datatype continuation = FakeDoorK | ModalK Product | ContactK

datatype exn = FetchRejected | Error string

record site =
  "open" :: bool
  clickedProduct :: "Product option"
  submitting :: bool
  submitMsg :: "string option"
  inflight :: "continuation list"
  effects :: "effect list"
  unhandled :: "exn list"

definition init :: site where
  "init =
     \<lparr>open = False, clickedProduct = None, submitting = False, submitMsg = None,
      inflight = [], effects = [], unhandled = []\<rparr>"

text \<open>A block of statements ends normally or by a thrown value; either way with a state.\<close>

datatype completion = Normal site | Throw exn site

definition try_catch_finally ::
  "completion \<Rightarrow> (exn \<Rightarrow> site \<Rightarrow> completion) \<Rightarrow> (site \<Rightarrow> site) \<Rightarrow> completion" where
  "try_catch_finally block handler finalizer =
     (case (case block of Normal s \<Rightarrow> Normal s | Throw e s \<Rightarrow> handler e s) of
        Normal s \<Rightarrow> Normal (finalizer s)
      | Throw e s \<Rightarrow> Throw e (finalizer s))"

section \<open>The handlers\<close>

subsection \<open>handleFakeDoor: the product call-to-action\<close>

definition handleFakeDoor :: "Product \<Rightarrow> string \<Rightarrow> site \<Rightarrow> site" where
  "handleFakeDoor p ts s =
     s\<lparr>clickedProduct := Some p,
       open := True,
       submitting := True,
       submitMsg := None,
       effects := effects s @
         [Fetch (notify [(''product'', id' p), (''email'', ''info@coffeecore.it''), (''ts'', ts)])],
       inflight := inflight s @ [FakeDoorK]\<rparr>"

definition handleFakeDoor_resume :: "fetch_result \<Rightarrow> site \<Rightarrow> completion" where
  "handleFakeDoor_resume r s =
     try_catch_finally
       (case r of
          NetworkError \<Rightarrow> Throw FetchRejected s
        | Response ok \<Rightarrow>
            if ok
            then Normal (s\<lparr>submitMsg :=
              Some ''Grazie! Abbiamo registrato il tuo interesse e avvisato l'amministratore.''\<rparr>)
            else Throw (Error ''notify failed'') (s\<lparr>submitMsg := None\<rparr>))
       (\<lambda>e s1. Normal (s1\<lparr>submitMsg := None\<rparr>))
       (\<lambda>s2. s2\<lparr>submitting := False\<rparr>)"

subsection \<open>The modal's email form\<close>

definition mailto :: "Product \<Rightarrow> string" where
  "mailto p =
     (let subject = encodeURIComponent (''Interesse: '' @ name p);
          body = encodeURIComponent
            (''Vorrei saperne di pi'' @ [u_grave] @ '' su questo prodotto quando sar''
             @ [a_grave] @ '' pronto.'')
      in ''mailto:admin@coffeecore.example?subject='' @ subject @ ''&body='' @ body)"

definition modal_onSubmit :: "Product \<Rightarrow> string \<Rightarrow> string \<Rightarrow> site \<Rightarrow> site" where
  "modal_onSubmit p email ts s =
     s\<lparr>submitting := True,
       submitMsg := None,
       effects := effects s @
         [Fetch (notify [(''product'', id' p), (''email'', email), (''ts'', ts)])],
       inflight := inflight s @ [ModalK p]\<rparr>"

definition modal_onSubmit_resume :: "Product \<Rightarrow> fetch_result \<Rightarrow> site \<Rightarrow> completion" where
  "modal_onSubmit_resume p r s =
     try_catch_finally
       (case r of
          NetworkError \<Rightarrow> Throw FetchRejected s
        | Response ok \<Rightarrow>
            if ok
            then Normal (s\<lparr>submitMsg := Some ''Perfetto! Ti avviseremo appena disponibile.''\<rparr>)
            else Throw (Error ''fail'') (s\<lparr>submitMsg := None\<rparr>))
       (\<lambda>e s1. Normal (s1\<lparr>submitMsg := None,
                            effects := effects s1 @ [SetLocationHref (mailto p)]\<rparr>))
       (\<lambda>s2. s2\<lparr>submitting := False\<rparr>)"

subsection \<open>The contact form\<close>

definition contact_onSubmit :: "string \<Rightarrow> string \<Rightarrow> string \<Rightarrow> string \<Rightarrow> site \<Rightarrow> site" where
  "contact_onSubmit nm email msg ts s =
     s\<lparr>effects := effects s @
         [Fetch (notify [(''product'', ''contact''), (''email'', email), (''name'', nm),
                         (''msg'', msg), (''ts'', ts)]),
          FormReset,
          Alert (''Grazie! Ti ricontatteremo al pi'' @ [u_grave] @ '' presto.'')],
       inflight := inflight s @ [ContactK]\<rparr>"

text \<open>
  \<^verbatim>\<open>fetch(...).catch(() => {})\<close>: a rejection runs the empty callback, a response is
  passed through; nothing reads the promise that results.
\<close>

definition promise_catch :: "completion \<Rightarrow> (exn \<Rightarrow> site \<Rightarrow> completion) \<Rightarrow> completion" where
  "promise_catch settled handler =
     (case settled of Normal s \<Rightarrow> Normal s | Throw e s \<Rightarrow> handler e s)"

definition contact_resume :: "fetch_result \<Rightarrow> site \<Rightarrow> completion" where
  "contact_resume r s =
     promise_catch
       (case r of NetworkError \<Rightarrow> Throw FetchRejected s | Response ok \<Rightarrow> Normal s)
       (\<lambda>e s1. Normal s1)"

subsection \<open>Closing the modal\<close>

definition close :: "site \<Rightarrow> site" where
  "close s = s\<lparr>open := False\<rparr>"

section \<open>Events\<close>

text \<open>
  The user's events and the settling of a pending \<^verbatim>\<open>fetch\<close>. An event takes effect only
  where the rendered page offers it: a call-to-action per catalog entry, the modal under
  \<^verbatim>\<open>open && clickedProduct\<close>, its submit button unless \<^verbatim>\<open>disabled={submitting}\<close>.
  A continuation that ends by a throw is an unhandled rejection of the handler's promise.
  The browser's own validation of the two forms (\<^verbatim>\<open>required\<close>, \<^verbatim>\<open>type="email"\<close>) is
  not modelled: a form can be submitted with any field values, of which those that pass the
  validation are a part. \<open>Settle k r\<close> settles the \<open>k\<close>-th pending request with the result
  \<open>r\<close>; requests settle in any order.
\<close>

datatype event =
    ClickProduct Product string
  | CloseModal
  | SubmitModal string string
  | SubmitContact string string string string
  | Settle nat fetch_result

fun resume :: "continuation \<Rightarrow> fetch_result \<Rightarrow> site \<Rightarrow> completion" where
  "resume FakeDoorK r s = handleFakeDoor_resume r s"
| "resume (ModalK p) r s = modal_onSubmit_resume p r s"
| "resume ContactK r s = contact_resume r s"

definition settle :: "nat \<Rightarrow> fetch_result \<Rightarrow> site \<Rightarrow> site" where
  "settle k r s =
     (if k < length (inflight s)
      then (case resume (inflight s ! k) r
                   (s\<lparr>inflight := take k (inflight s) @ drop (Suc k) (inflight s)\<rparr>) of
              Normal s1 \<Rightarrow> s1
            | Throw e s1 \<Rightarrow> s1\<lparr>unhandled := unhandled s1 @ [e]\<rparr>)
      else s)"

fun dispatch :: "event \<Rightarrow> site \<Rightarrow> site" where
  "dispatch (ClickProduct p ts) s = (if p \<in> set products then handleFakeDoor p ts s else s)"
| "dispatch CloseModal s =
     (case clickedProduct s of
        Some p \<Rightarrow> if open s then close s else s
      | None \<Rightarrow> s)"
| "dispatch (SubmitModal email ts) s =
     (case clickedProduct s of
        Some p \<Rightarrow> if open s \<and> \<not> submitting s then modal_onSubmit p email ts s else s
      | None \<Rightarrow> s)"
| "dispatch (SubmitContact nm email msg ts) s = contact_onSubmit nm email msg ts s"
| "dispatch (Settle k r) s = settle k r s"

fun run :: "event list \<Rightarrow> site \<Rightarrow> site" where
  "run [] s = s"
| "run (e # es) s = run es (dispatch e s)"

section \<open>jumpAndHighlight\<close>

text \<open>
  The document maps the id of an element to its class list; \<^verbatim>\<open>getElementById\<close> is the
  lookup. A timer is the time in milliseconds from which it may fire and the element whose
  \<^verbatim>\<open>cc-highlight\<close> class its callback removes. Nothing in the component clears a timer.
\<close>

record page =
  classList :: "string \<Rightarrow> string list option"
  scrolledTo :: "string list"
  timers :: "(nat \<times> string) list"

definition classList_add :: "string \<Rightarrow> string list \<Rightarrow> string list" where
  "classList_add c cl = (if c \<in> set cl then cl else cl @ [c])"

definition classList_remove :: "string \<Rightarrow> string list \<Rightarrow> string list" where
  "classList_remove c cl = filter (\<lambda>x. x \<noteq> c) cl"

definition jumpAndHighlight :: "nat \<Rightarrow> string \<Rightarrow> page \<Rightarrow> page" where
  "jumpAndHighlight now i pg =
     (case classList pg i of
        None \<Rightarrow> pg
      | Some cl \<Rightarrow>
          pg\<lparr>scrolledTo := scrolledTo pg @ [i],
             classList := (classList pg)(i \<mapsto> classList_add ''cc-highlight'' cl),
             timers := timers pg @ [(now + 1000, i)]\<rparr>)"

definition fire :: "string \<Rightarrow> page \<Rightarrow> page" where
  "fire i pg =
     (case classList pg i of
        None \<Rightarrow> pg
      | Some cl \<Rightarrow> pg\<lparr>classList := (classList pg)(i \<mapsto> classList_remove ''cc-highlight'' cl)\<rparr>)"

text \<open>The event loop at time \<open>now\<close>: every timer that is due fires, in the order it was set.\<close>

definition advance :: "nat \<Rightarrow> page \<Rightarrow> page" where
  "advance now pg =
     (fold (\<lambda>(due, i) q. fire i q) (filter (\<lambda>(due, i). due \<le> now) (timers pg)) pg)
       \<lparr>timers := filter (\<lambda>(due, i). \<not> due \<le> now) (timers pg)\<rparr>"

definition highlighted :: "page \<Rightarrow> string \<Rightarrow> bool" where
  "highlighted pg i = (case classList pg i of None \<Rightarrow> False | Some cl \<Rightarrow> ''cc-highlight'' \<in> set cl)"

section \<open>Observations\<close>

text \<open>The \<^verbatim>\<open>fetch\<close> calls made so far, oldest first.\<close>

definition requests :: "site \<Rightarrow> request list" where
  "requests s = concat (map (\<lambda>x. case x of Fetch q \<Rightarrow> [q] | _ \<Rightarrow> []) (effects s))"

fun state_of :: "completion \<Rightarrow> site" where
  "state_of (Normal s) = s"
| "state_of (Throw e s) = s"

text \<open>The invariant of the modal's two cells: an open modal has a product.\<close>

definition modal_inv :: "site \<Rightarrow> bool" where
  "modal_inv s = (open s \<longrightarrow> clickedProduct s \<noteq> None)"

section \<open>The manual contact action, in the spec's terms\<close>

text \<open>
  The spec speaks of a ManualContactAction (an address, a subject, a body template) that a
  Fallback Channel Resolver computes and a mail-compose action opens. The component has no
  such value: the \<^verbatim>\<open>catch\<close> block of the modal form builds the \<^verbatim>\<open>mailto:\<close> URL in one
  template literal (\<open>mailto\<close> above). The two definitions below follow the spec's words, to be
  compared with \<open>mailto\<close>.
\<close>

record ManualContactAction =
  address :: string
  subject :: string
  template :: string

definition spec_resolveFallback :: "Product \<Rightarrow> ManualContactAction" where
  "spec_resolveFallback p =
     \<lparr>address = ''admin@coffeecore.example'',
      subject = ''Interesse: '' @ name p,
      template = ''Vorrei saperne di pi'' @ [u_grave] @ '' su questo prodotto quando sar''
                 @ [a_grave] @ '' pronto.''\<rparr>"

definition spec_mail_compose :: "ManualContactAction \<Rightarrow> string" where
  "spec_mail_compose a =
     ''mailto:'' @ address a @ ''?subject='' @ encodeURIComponent (subject a)
     @ ''&body='' @ encodeURIComponent (template a)"

text \<open>
  The contact section as the component renders it, with no timer pending: the page before
  the first click on \<^verbatim>\<open>Scrivici\<close>.
\<close>

definition contatti_page :: page where
  "contatti_page =
     \<lparr>classList = [''contatti'' \<mapsto>
        [''scroll-mt-20'', ''mx-auto'', ''max-w-7xl'', ''px-4'', ''sm:px-6'', ''lg:px-8'', ''py-16'']],
      scrolledTo = [],
      timers = []\<rparr>"

section \<open>How each continuation ends\<close>

lemma handleFakeDoor_resume_Delivered:
  "handleFakeDoor_resume (Response True) s =
     Normal (s\<lparr>submitMsg := Some ''Grazie! Abbiamo registrato il tuo interesse e avvisato l'amministratore.'',
               submitting := False\<rparr>)"
  by (simp add: handleFakeDoor_resume_def try_catch_finally_def)

lemma handleFakeDoor_resume_failed:
  "outcome r \<noteq> Delivered \<Longrightarrow>
   handleFakeDoor_resume r s = Normal (s\<lparr>submitMsg := None, submitting := False\<rparr>)"
  by (cases r) (auto simp: handleFakeDoor_resume_def try_catch_finally_def)

lemma modal_onSubmit_resume_Delivered:
  "modal_onSubmit_resume p (Response True) s =
     Normal (s\<lparr>submitMsg := Some ''Perfetto! Ti avviseremo appena disponibile.'',
               submitting := False\<rparr>)"
  by (simp add: modal_onSubmit_resume_def try_catch_finally_def)

lemma modal_onSubmit_resume_failed:
  "outcome r \<noteq> Delivered \<Longrightarrow>
   modal_onSubmit_resume p r s =
     Normal (s\<lparr>submitMsg := None, effects := effects s @ [SetLocationHref (mailto p)],
               submitting := False\<rparr>)"
  by (cases r) (auto simp: modal_onSubmit_resume_def try_catch_finally_def)

lemma contact_resume_Normal: "contact_resume r s = Normal s"
  by (cases r) (simp_all add: contact_resume_def promise_catch_def)

lemma outcome_cases: "r = Response True \<or> outcome r \<noteq> Delivered"
  by (cases r) auto

lemma resume_Normal: "\<exists>s'. resume k r s = Normal s'"
proof (cases k)
  case FakeDoorK
  then show ?thesis
    using handleFakeDoor_resume_Delivered handleFakeDoor_resume_failed outcome_cases [of r]
    by (metis resume.simps(1))
next
  case (ModalK p)
  then show ?thesis
    using modal_onSubmit_resume_Delivered modal_onSubmit_resume_failed outcome_cases [of r]
    by (metis resume.simps(2))
next
  case ContactK
  then show ?thesis by (simp add: contact_resume_Normal)
qed

lemma resume_fields:
  assumes "resume k r s = Normal s'"
  shows "open s' = open s" and "clickedProduct s' = clickedProduct s"
    and "inflight s' = inflight s" and "unhandled s' = unhandled s"
    and "requests s' = requests s"
proof -
  consider (d) "r = Response True" | (f) "outcome r \<noteq> Delivered"
    using outcome_cases by blast
  then have "open s' = open s \<and> clickedProduct s' = clickedProduct s
      \<and> inflight s' = inflight s \<and> unhandled s' = unhandled s \<and> requests s' = requests s"
  proof cases
    case d
    with assms show ?thesis
      by (cases k)
        (auto simp: handleFakeDoor_resume_Delivered modal_onSubmit_resume_Delivered
          contact_resume_Normal requests_def)
  next
    case f
    with assms show ?thesis
      by (cases k)
        (auto simp: handleFakeDoor_resume_failed modal_onSubmit_resume_failed
          contact_resume_Normal requests_def)
  qed
  then show "open s' = open s" and "clickedProduct s' = clickedProduct s"
    and "inflight s' = inflight s" and "unhandled s' = unhandled s"
    and "requests s' = requests s"
    by simp_all
qed

lemma settle_fields:
  "open (settle k r s) = open s"
  "clickedProduct (settle k r s) = clickedProduct s"
  "unhandled (settle k r s) = unhandled s"
  "requests (settle k r s) = requests s"
proof -
  have "open (settle k r s) = open s \<and> clickedProduct (settle k r s) = clickedProduct s
     \<and> unhandled (settle k r s) = unhandled s \<and> requests (settle k r s) = requests s"
  proof (cases "k < length (inflight s)")
    case True
    define s0 where "s0 = s\<lparr>inflight := take k (inflight s) @ drop (Suc k) (inflight s)\<rparr>"
    obtain s' where s': "resume (inflight s ! k) r s0 = Normal s'"
      using resume_Normal by blast
    have "settle k r s = s'"
      using True s' by (simp add: settle_def s0_def)
    moreover have "open s0 = open s" "clickedProduct s0 = clickedProduct s"
      "unhandled s0 = unhandled s" "requests s0 = requests s"
      by (simp_all add: s0_def requests_def)
    ultimately show ?thesis
      using resume_fields [OF s'] by simp
  next
    case False
    then show ?thesis by (simp add: settle_def)
  qed
  then show "open (settle k r s) = open s"
  "clickedProduct (settle k r s) = clickedProduct s"
  "unhandled (settle k r s) = unhandled s"
  "requests (settle k r s) = requests s" by simp_all
qed

section \<open>One request per submit\<close>

lemma requests_handleFakeDoor:
  "requests (handleFakeDoor p ts s) =
     requests s @ [notify [(''product'', id' p), (''email'', ''info@coffeecore.it''), (''ts'', ts)]]"
  by (simp add: handleFakeDoor_def requests_def)

lemma requests_modal_onSubmit:
  "requests (modal_onSubmit p email ts s) =
     requests s @ [notify [(''product'', id' p), (''email'', email), (''ts'', ts)]]"
  by (simp add: modal_onSubmit_def requests_def)

lemma requests_contact_onSubmit:
  "requests (contact_onSubmit nm email msg ts s) =
     requests s @ [notify [(''product'', ''contact''), (''email'', email), (''name'', nm),
                           (''msg'', msg), (''ts'', ts)]]"
  by (simp add: contact_onSubmit_def requests_def)

lemma requests_state_of_resume: "requests (state_of (resume k r s)) = requests s"
proof -
  obtain s' where s': "resume k r s = Normal s'"
    using resume_Normal by blast
  then show ?thesis
    using resume_fields(5) [OF s'] by simp
qed

text \<open>
  Claim C8. Each of the three submit handlers calls \<^verbatim>\<open>fetch\<close> once: a POST to
  \<^verbatim>\<open>/api/notify\<close> with a JSON body. The body of the product call-to-action and of the
  modal form has the fields \<open>product\<close> (the product's id), \<open>email\<close> and \<open>ts\<close>; the body of
  the contact form has \<open>product\<close> (the sentinel \<^verbatim>\<open>contact\<close>), \<open>email\<close>, \<open>name\<close>, \<open>msg\<close>
  and \<open>ts\<close>. The value of \<open>ts\<close> is what \<^verbatim>\<open>new Date().toISOString()\<close> returned. No
  continuation calls \<^verbatim>\<open>fetch\<close> again, whatever the outcome: there is no retry.
\<close>

theorem one_post_per_submit:
  "requests (handleFakeDoor p ts s) =
     requests s @
       [\<lparr>url = ''/api/notify'', method = ''POST'',
         headers = [(''Content-Type'', ''application/json'')],
         body = [(''product'', id' p), (''email'', ''info@coffeecore.it''), (''ts'', ts)]\<rparr>]
   \<and> requests (modal_onSubmit p email ts s) =
     requests s @
       [\<lparr>url = ''/api/notify'', method = ''POST'',
         headers = [(''Content-Type'', ''application/json'')],
         body = [(''product'', id' p), (''email'', email), (''ts'', ts)]\<rparr>]
   \<and> requests (contact_onSubmit nm email msg ts s) =
     requests s @
       [\<lparr>url = ''/api/notify'', method = ''POST'',
         headers = [(''Content-Type'', ''application/json'')],
         body = [(''product'', ''contact''), (''email'', email), (''name'', nm),
                 (''msg'', msg), (''ts'', ts)]\<rparr>]
   \<and> requests (state_of (resume k r s)) = requests s
   \<and> requests (settle j r s) = requests s"
  using requests_handleFakeDoor [of p ts s] requests_modal_onSubmit [of p email ts s]
    requests_contact_onSubmit [of nm email msg ts s] requests_state_of_resume [of k r s]
    settle_fields(4) [of j r s]
  by (simp add: notify_def)

theorem one_post_per_submit_witness:
  "requests (contact_onSubmit ''Ada'' ''ada@example.org'' ''Ciao'' ''2025-09-01T08:00:00.000Z'' init) =
     [\<lparr>url = ''/api/notify'', method = ''POST'',
       headers = [(''Content-Type'', ''application/json'')],
       body = [(''product'', ''contact''), (''email'', ''ada@example.org''), (''name'', ''Ada''),
               (''msg'', ''Ciao''), (''ts'', ''2025-09-01T08:00:00.000Z'')]\<rparr>]
   \<and> requests (settle 0 NetworkError
        (contact_onSubmit ''Ada'' ''ada@example.org'' ''Ciao'' ''2025-09-01T08:00:00.000Z'' init)) =
     requests (contact_onSubmit ''Ada'' ''ada@example.org'' ''Ciao'' ''2025-09-01T08:00:00.000Z'' init)"
proof -
  have "requests init = []"
    by (simp add: requests_def init_def)
  then show ?thesis
    using one_post_per_submit [of pellet "''2025-09-01T08:00:00.000Z''" init "''ada@example.org''"
        "''Ada''" "''Ciao''"]
      one_post_per_submit [where s = "contact_onSubmit ''Ada'' ''ada@example.org'' ''Ciao''
        ''2025-09-01T08:00:00.000Z'' init" and j = 0 and r = NetworkError]
    by simp
qed

section \<open>The click on a product\<close>

text \<open>
  Claim C10. A click on the call-to-action of a catalog product calls \<^verbatim>\<open>fetch\<close> at once, in
  whatever state the component is and with no input of the user: the handler's only
  arguments are the product and the clock. The \<open>email\<close> field of the request is the constant
  \<^verbatim>\<open>info@coffeecore.it\<close>.
\<close>

theorem fake_door_click_posts_fixed_email:
  "p \<in> set products \<Longrightarrow>
   effects (dispatch (ClickProduct p ts) s) =
     effects s @
       [Fetch \<lparr>url = ''/api/notify'', method = ''POST'',
               headers = [(''Content-Type'', ''application/json'')],
               body = [(''product'', id' p), (''email'', ''info@coffeecore.it''), (''ts'', ts)]\<rparr>]"
  by (simp add: handleFakeDoor_def notify_def)

theorem fake_door_click_posts_fixed_email_witness:
  "pellet \<in> set products \<and>
   effects (dispatch (ClickProduct pellet ''2025-09-01T08:00:00.000Z'') init) =
     [Fetch \<lparr>url = ''/api/notify'', method = ''POST'',
             headers = [(''Content-Type'', ''application/json'')],
             body = [(''product'', ''pellet''), (''email'', ''info@coffeecore.it''),
                     (''ts'', ''2025-09-01T08:00:00.000Z'')]\<rparr>]"
proof -
  have m: "pellet \<in> set products"
    by (simp add: products_def)
  show ?thesis
    using m fake_door_click_posts_fixed_email [OF m, of "''2025-09-01T08:00:00.000Z''" init]
    by (simp add: init_def pellet_def)
qed

section \<open>No exception leaves a submission\<close>

lemma unhandled_dispatch: "unhandled (dispatch e s) = unhandled s"
  by (cases e)
    (auto simp: handleFakeDoor_def close_def modal_onSubmit_def contact_onSubmit_def
      settle_fields(3) split: option.splits)

lemma unhandled_run: "unhandled (run es s) = unhandled s"
  by (induction es arbitrary: s) (simp_all add: unhandled_dispatch)

text \<open>
  Claim C7. A \<^verbatim>\<open>fetch\<close> settles in one of three ways (Delivered, Rejected, TransportFailed),
  and on each of the three submission paths the code after the \<^verbatim>\<open>fetch\<close> ends normally in
  every one of them: the \<^verbatim>\<open>catch\<close> of the two \<^verbatim>\<open>async\<close> handlers and the
  \<^verbatim>\<open>.catch(() => {})\<close> of the contact form take every thrown value. So no sequence of
  events leaves an unhandled rejection.
\<close>

theorem submission_never_throws:
  "(outcome r = Delivered \<or> outcome r = Rejected \<or> outcome r = TransportFailed)
   \<and> (\<exists>s'. handleFakeDoor_resume r s = Normal s')
   \<and> (\<exists>s'. modal_onSubmit_resume p r s = Normal s')
   \<and> (\<exists>s'. contact_resume r s = Normal s')
   \<and> unhandled (run es init) = []"
proof -
  have "outcome r = Delivered \<or> outcome r = Rejected \<or> outcome r = TransportFailed"
    by (cases "outcome r") simp_all
  moreover have "\<exists>s'. handleFakeDoor_resume r s = Normal s'"
    using resume_Normal [of FakeDoorK r s] by simp
  moreover have "\<exists>s'. modal_onSubmit_resume p r s = Normal s'"
    using resume_Normal [of "ModalK p" r s] by simp
  moreover have "\<exists>s'. contact_resume r s = Normal s'"
    using resume_Normal [of ContactK r s] by simp
  moreover have "unhandled (run es init) = []"
    by (simp add: unhandled_run init_def)
  ultimately show ?thesis by blast
qed

theorem submission_never_throws_witness:
  "outcome NetworkError = TransportFailed
   \<and> (\<exists>s'. modal_onSubmit_resume pellet NetworkError init = Normal s')
   \<and> unhandled (run [ClickProduct pellet ''2025-09-01T08:00:00.000Z'', Settle 0 (Response False),
                      SubmitModal ''ada@example.org'' ''2025-09-01T08:00:05.000Z'',
                      Settle 0 NetworkError] init) = []"
  using submission_never_throws
    [of NetworkError init pellet
      "[ClickProduct pellet ''2025-09-01T08:00:00.000Z'', Settle 0 (Response False),
        SubmitModal ''ada@example.org'' ''2025-09-01T08:00:05.000Z'', Settle 0 NetworkError]"]
  by simp

section \<open>The modal's invariant\<close>

lemma modal_inv_init: "modal_inv init"
  by (simp add: modal_inv_def init_def)

lemma modal_inv_handleFakeDoor: "modal_inv (handleFakeDoor p ts s)"
  by (simp add: modal_inv_def handleFakeDoor_def)

lemma modal_inv_close: "modal_inv (close s)"
  by (simp add: modal_inv_def close_def)

lemma modal_inv_modal_onSubmit: "modal_inv s \<Longrightarrow> modal_inv (modal_onSubmit p email ts s)"
  by (simp add: modal_inv_def modal_onSubmit_def)

lemma modal_inv_contact_onSubmit: "modal_inv s \<Longrightarrow> modal_inv (contact_onSubmit nm email msg ts s)"
  by (simp add: modal_inv_def contact_onSubmit_def)

lemma modal_inv_settle: "modal_inv s \<Longrightarrow> modal_inv (settle k r s)"
  by (simp add: modal_inv_def settle_fields)

lemma modal_inv_dispatch: "modal_inv s \<Longrightarrow> modal_inv (dispatch e s)"
  by (cases e)
    (auto simp: modal_inv_handleFakeDoor modal_inv_close modal_inv_modal_onSubmit
      modal_inv_contact_onSubmit modal_inv_settle split: option.splits)

lemma modal_inv_run: "modal_inv s \<Longrightarrow> modal_inv (run es s)"
  by (induction es arbitrary: s) (simp_all add: modal_inv_dispatch)

text \<open>
  Claim C6. \<^verbatim>\<open>open\<close> implies \<^verbatim>\<open>clickedProduct != null\<close>: this holds in the initial
  state; \<^verbatim>\<open>handleFakeDoor\<close> and the close button establish it from any state; the two
  form handlers, the settling of a request and every event keep it. So it holds after every
  sequence of events.
\<close>

theorem modal_invariant:
  "modal_inv init
   \<and> modal_inv (handleFakeDoor p ts s)
   \<and> modal_inv (close s)
   \<and> (modal_inv s \<longrightarrow>
        modal_inv (modal_onSubmit q email ts s)
        \<and> modal_inv (contact_onSubmit nm email msg ts s)
        \<and> modal_inv (settle k r s)
        \<and> modal_inv (dispatch e s))
   \<and> modal_inv (run es init)"
proof (intro conjI impI)
  show "modal_inv init" by (rule modal_inv_init)
  show "modal_inv (handleFakeDoor p ts s)" by (rule modal_inv_handleFakeDoor)
  show "modal_inv (close s)" by (rule modal_inv_close)
  show "modal_inv (run es init)" by (rule modal_inv_run [OF modal_inv_init])
next
  assume inv: "modal_inv s"
  show "modal_inv (modal_onSubmit q email ts s)" by (rule modal_inv_modal_onSubmit [OF inv])
  show "modal_inv (contact_onSubmit nm email msg ts s)" by (rule modal_inv_contact_onSubmit [OF inv])
  show "modal_inv (settle k r s)" by (rule modal_inv_settle [OF inv])
  show "modal_inv (dispatch e s)" by (rule modal_inv_dispatch [OF inv])
qed

theorem modal_invariant_witness:
  "modal_inv (handleFakeDoor pellet ''2025-09-01T08:00:00.000Z'' init)
   \<and> modal_inv (settle 0 NetworkError (handleFakeDoor pellet ''2025-09-01T08:00:00.000Z'' init))
   \<and> modal_inv (run [ClickProduct pellet ''2025-09-01T08:00:00.000Z'', Settle 0 NetworkError] init)
   \<and> open (run [ClickProduct pellet ''2025-09-01T08:00:00.000Z'', Settle 0 NetworkError] init)
   \<and> clickedProduct
        (run [ClickProduct pellet ''2025-09-01T08:00:00.000Z'', Settle 0 NetworkError] init)
       = Some pellet"
proof -
  have m: "pellet \<in> set products"
    by (simp add: products_def)
  have "open (run [ClickProduct pellet ''2025-09-01T08:00:00.000Z'', Settle 0 NetworkError] init)"
    using m by (simp add: settle_fields handleFakeDoor_def)
  moreover have "clickedProduct
      (run [ClickProduct pellet ''2025-09-01T08:00:00.000Z'', Settle 0 NetworkError] init)
      = Some pellet"
    using m by (simp add: settle_fields handleFakeDoor_def)
  moreover have "modal_inv (handleFakeDoor pellet ''2025-09-01T08:00:00.000Z'' init)"
    using modal_invariant [of pellet "''2025-09-01T08:00:00.000Z''" init]
    by simp
  moreover have "modal_inv (settle 0 NetworkError (handleFakeDoor pellet ''2025-09-01T08:00:00.000Z'' init))"
    using calculation(3)
      modal_invariant [where s = "handleFakeDoor pellet ''2025-09-01T08:00:00.000Z'' init"
        and k = 0 and r = NetworkError]
    by simp
  moreover have "modal_inv (run [ClickProduct pellet ''2025-09-01T08:00:00.000Z'', Settle 0 NetworkError] init)"
    using modal_invariant
      [where es = "[ClickProduct pellet ''2025-09-01T08:00:00.000Z'', Settle 0 NetworkError]"]
    by simp
  ultimately show ?thesis
    by simp
qed

section \<open>The modal form's fallback\<close>

lemma encodeURIComponent_append:
  "encodeURIComponent (xs @ ys) = encodeURIComponent xs @ encodeURIComponent ys"
  by (simp add: encodeURIComponent_def)

lemma encode_Interesse: "encodeURIComponent ''Interesse: '' = ''Interesse%3A%20''"
  by code_simp

lemma encode_template:
  "encodeURIComponent (''Vorrei saperne di pi'' @ [u_grave] @ '' su questo prodotto quando sar''
                 @ [a_grave] @ '' pronto.'')
   = ''Vorrei%20saperne%20di%20pi%C3%B9%20su%20questo%20prodotto%20quando%20sar%C3%A0%20pronto.''"
  by code_simp

lemma encode_polifenoli_name:
  "encodeURIComponent (name polifenoli) = ''Polifenoli%20%26%20Bioattivi%20(upcycled)''"
  by code_simp

lemma mailto_explicit:
  "mailto p = ''mailto:admin@coffeecore.example?subject=Interesse%3A%20'' @ encodeURIComponent (name p)
     @ ''&body=Vorrei%20saperne%20di%20pi%C3%B9%20su%20questo%20prodotto%20quando%20sar%C3%A0%20pronto.''"
  unfolding mailto_def Let_def encodeURIComponent_append [of "''Interesse: ''"] encode_Interesse encode_template
  by simp

lemma mailto_is_spec_mail_compose: "mailto p = spec_mail_compose (spec_resolveFallback p)"
  by (simp add: mailto_def spec_mail_compose_def spec_resolveFallback_def)

lemma settle_head:
  "inflight s = k # ks \<Longrightarrow> resume k r (s\<lparr>inflight := ks\<rparr>) = Normal s' \<Longrightarrow> settle 0 r s = s'"
  by (simp add: settle_def drop_Suc)

text \<open>
  Claim C2. When the request of the modal email form is Rejected or TransportFailed, the
  continuation ends with \<^verbatim>\<open>submitting\<close> false and the confirmation message absent, and
  its one effect is to open a \<^verbatim>\<open>mailto:\<close> URL. That URL is the mail-compose form of the
  spec's ManualContactAction for the product of the submission: its address is
  \<^verbatim>\<open>admin@coffeecore.example\<close>, its subject is \<^verbatim>\<open>Interesse: \<close> followed by the
  product's display name, so the URL holds the percent-encoded name in its subject.
\<close>

theorem modal_failure_degrades:
  "outcome r = Rejected \<or> outcome r = TransportFailed \<Longrightarrow>
   modal_onSubmit_resume p r s =
     Normal (s\<lparr>submitMsg := None,
               effects := effects s @ [SetLocationHref (spec_mail_compose (spec_resolveFallback p))],
               submitting := False\<rparr>)
   \<and> address (spec_resolveFallback p) = ''admin@coffeecore.example''
   \<and> sublist (name p) (subject (spec_resolveFallback p))
   \<and> spec_mail_compose (spec_resolveFallback p) =
       ''mailto:admin@coffeecore.example?subject=Interesse%3A%20'' @ encodeURIComponent (name p)
       @ ''&body=Vorrei%20saperne%20di%20pi%C3%B9%20su%20questo%20prodotto%20quando%20sar%C3%A0%20pronto.''"
proof -
  assume "outcome r = Rejected \<or> outcome r = TransportFailed"
  then have f: "outcome r \<noteq> Delivered" by auto
  have "sublist (name p) (''Interesse: '' @ name p)"
    by (rule sublist_append_leftI)
  then have "sublist (name p) (subject (spec_resolveFallback p))"
    by (simp add: spec_resolveFallback_def)
  moreover have "address (spec_resolveFallback p) = ''admin@coffeecore.example''"
    by (simp add: spec_resolveFallback_def)
  ultimately show ?thesis
    using modal_onSubmit_resume_failed [OF f, of p s] mailto_explicit [of p]
    by (simp add: mailto_is_spec_mail_compose)
qed

theorem modal_failure_degrades_witness:
  "run [ClickProduct pellet ''2025-09-01T08:00:00.000Z'', Settle 0 (Response True),
        SubmitModal ''ada@example.org'' ''2025-09-01T08:00:05.000Z'', Settle 0 NetworkError] init =
     \<lparr>open = True, clickedProduct = Some pellet, submitting = False, submitMsg = None,
      inflight = [],
      effects =
        [Fetch (notify [(''product'', ''pellet''), (''email'', ''info@coffeecore.it''),
                        (''ts'', ''2025-09-01T08:00:00.000Z'')]),
         Fetch (notify [(''product'', ''pellet''), (''email'', ''ada@example.org''),
                        (''ts'', ''2025-09-01T08:00:05.000Z'')]),
         SetLocationHref ''mailto:admin@coffeecore.example?subject=Interesse%3A%20Pellet%20da%20scarti%20di%20caff%C3%A8&body=Vorrei%20saperne%20di%20pi%C3%B9%20su%20questo%20prodotto%20quando%20sar%C3%A0%20pronto.''],
      unhandled = []\<rparr>"
proof -
  define s1 where "s1 = handleFakeDoor pellet ''2025-09-01T08:00:00.000Z'' init"
  define s2 where "s2 = s1\<lparr>inflight := [],
    submitMsg := Some ''Grazie! Abbiamo registrato il tuo interesse e avvisato l'amministratore.'',
    submitting := False\<rparr>"
  define s3 where "s3 = modal_onSubmit pellet ''ada@example.org'' ''2025-09-01T08:00:05.000Z'' s2"
  have m: "pellet \<in> set products"
    by (simp add: products_def)
  have n: "encodeURIComponent (name pellet) = ''Pellet%20da%20scarti%20di%20caff%C3%A8''"
    by code_simp
  have o: "outcome NetworkError = Rejected \<or> outcome NetworkError = TransportFailed"
    by simp
  have 1: "dispatch (ClickProduct pellet ''2025-09-01T08:00:00.000Z'') init = s1"
    using m by (simp add: s1_def)
  have 2: "dispatch (Settle 0 (Response True)) s1 = s2"
    by (simp add: settle_def s1_def s2_def handleFakeDoor_def init_def handleFakeDoor_resume_Delivered)
  have 3: "dispatch (SubmitModal ''ada@example.org'' ''2025-09-01T08:00:05.000Z'') s2 = s3"
    by (simp add: s3_def s2_def s1_def handleFakeDoor_def)
  have i3: "inflight s3 = [ModalK pellet]"
    by (simp add: s3_def s2_def modal_onSubmit_def)
  have 4: "dispatch (Settle 0 NetworkError) s3 =
      s3\<lparr>inflight := [], submitMsg := None,
         effects := effects s3 @ [SetLocationHref (spec_mail_compose (spec_resolveFallback pellet))],
         submitting := False\<rparr>"
    using modal_failure_degrades [OF o, of pellet "s3\<lparr>inflight := []\<rparr>"]
    by (simp add: settle_head [OF i3])
  have u: "spec_mail_compose (spec_resolveFallback pellet) =
      ''mailto:admin@coffeecore.example?subject=Interesse%3A%20Pellet%20da%20scarti%20di%20caff%C3%A8&body=Vorrei%20saperne%20di%20pi%C3%B9%20su%20questo%20prodotto%20quando%20sar%C3%A0%20pronto.''"
    using modal_failure_degrades [OF o, of pellet init]
    by (simp add: n)
  have "run [ClickProduct pellet ''2025-09-01T08:00:00.000Z'', Settle 0 (Response True),
        SubmitModal ''ada@example.org'' ''2025-09-01T08:00:05.000Z'', Settle 0 NetworkError] init =
      s3\<lparr>inflight := [], submitMsg := None,
         effects := effects s3 @ [SetLocationHref (spec_mail_compose (spec_resolveFallback pellet))],
         submitting := False\<rparr>"
    unfolding run.simps 1 2 3 4 by (rule refl)
  also have "\<dots> = \<lparr>open = True, clickedProduct = Some pellet, submitting = False, submitMsg = None,
      inflight = [],
      effects =
        [Fetch (notify [(''product'', ''pellet''), (''email'', ''info@coffeecore.it''),
                        (''ts'', ''2025-09-01T08:00:00.000Z'')]),
         Fetch (notify [(''product'', ''pellet''), (''email'', ''ada@example.org''),
                        (''ts'', ''2025-09-01T08:00:05.000Z'')]),
         SetLocationHref ''mailto:admin@coffeecore.example?subject=Interesse%3A%20Pellet%20da%20scarti%20di%20caff%C3%A8&body=Vorrei%20saperne%20di%20pi%C3%B9%20su%20questo%20prodotto%20quando%20sar%C3%A0%20pronto.''],
      unhandled = []\<rparr>"
    unfolding u
    by (simp add: s3_def s2_def s1_def modal_onSubmit_def handleFakeDoor_def init_def)
       (simp add: pellet_def)
  finally show ?thesis .
qed

section \<open>What a failed request shows the user\<close>

text \<open>
  Claim C1, as stated, fails on the contact form. The form is submitted and its request is
  rejected by the network (TransportFailed): the user has been shown the thank-you alert,
  and no \<^verbatim>\<open>mailto:\<close> fallback is opened.
\<close>

theorem contact_failure_counterexample:
  "effects (run [SubmitContact ''Ada'' ''ada@example.org'' ''Ciao'' ''2025-09-01T08:00:00.000Z'',
                 Settle 0 NetworkError] init) =
     [Fetch (notify [(''product'', ''contact''), (''email'', ''ada@example.org''), (''name'', ''Ada''),
                     (''msg'', ''Ciao''), (''ts'', ''2025-09-01T08:00:00.000Z'')]),
      FormReset,
      Alert (''Grazie! Ti ricontatteremo al pi'' @ [u_grave] @ '' presto.'')]"
  by (simp add: settle_def contact_onSubmit_def contact_resume_Normal init_def)

text \<open>
  Claim C1, amended. A Rejected or TransportFailed outcome is absorbed on every surface: no
  continuation ends by a throw. On the product call-to-action the failure ends with
  \<^verbatim>\<open>submitting\<close> false and the confirmation message absent. On the modal email form it
  clears the confirmation message, ends \<^verbatim>\<open>submitting\<close> and opens the \<^verbatim>\<open>mailto:\<close>
  fallback. The contact form shows its thank-you alert when it is submitted, before the
  request settles, and the outcome changes nothing.
\<close>

theorem failure_absorbed:
  "outcome r = Rejected \<or> outcome r = TransportFailed \<Longrightarrow>
   (\<exists>s'. handleFakeDoor_resume r s = Normal s' \<and> submitMsg s' = None \<and> submitting s' = False)
   \<and> modal_onSubmit_resume p r s =
       Normal (s\<lparr>submitMsg := None, effects := effects s @ [SetLocationHref (mailto p)],
                 submitting := False\<rparr>)
   \<and> contact_resume r s = Normal s
   \<and> effects (contact_onSubmit nm email msg ts s) =
       effects s @
         [Fetch (notify [(''product'', ''contact''), (''email'', email), (''name'', nm),
                         (''msg'', msg), (''ts'', ts)]),
          FormReset,
          Alert (''Grazie! Ti ricontatteremo al pi'' @ [u_grave] @ '' presto.'')]"
proof -
  assume "outcome r = Rejected \<or> outcome r = TransportFailed"
  then have f: "outcome r \<noteq> Delivered" by auto
  show ?thesis
    using handleFakeDoor_resume_failed [OF f, of s] modal_onSubmit_resume_failed [OF f, of p s]
    by (simp add: contact_resume_Normal contact_onSubmit_def)
qed

theorem failure_absorbed_witness:
  "outcome (Response False) = Rejected
   \<and> modal_onSubmit_resume bevande (Response False) init =
       Normal (init\<lparr>submitMsg := None,
                 effects := [SetLocationHref ''mailto:admin@coffeecore.example?subject=Interesse%3A%20Bevande%20con%20bioattivi%20aggiunti&body=Vorrei%20saperne%20di%20pi%C3%B9%20su%20questo%20prodotto%20quando%20sar%C3%A0%20pronto.''],
                 submitting := False\<rparr>)
   \<and> handleFakeDoor_resume (Response False) init = Normal init
   \<and> contact_resume (Response False) init = Normal init"
proof -
  have o: "outcome (Response False) = Rejected \<or> outcome (Response False) = TransportFailed"
    by simp
  have u: "mailto bevande = ''mailto:admin@coffeecore.example?subject=Interesse%3A%20Bevande%20con%20bioattivi%20aggiunti&body=Vorrei%20saperne%20di%20pi%C3%B9%20su%20questo%20prodotto%20quando%20sar%C3%A0%20pronto.''"
    by code_simp
  have i: "init\<lparr>submitMsg := None, submitting := False\<rparr> = init"
    by (simp add: init_def)
  have e: "effects init = []"
    by (simp add: init_def)
  have h: "handleFakeDoor_resume (Response False) init = Normal init"
    using handleFakeDoor_resume_failed [of "Response False" init] by (simp add: i)
  show ?thesis
    using failure_absorbed [OF o, of init bevande]
    by (simp add: u e h)
qed

section \<open>A submit while a request is pending\<close>

text \<open>
  Claim C3, as stated, fails on the product call-to-action. A product is clicked, the modal
  is closed while the request is pending (\<^verbatim>\<open>submitting\<close> is true), and a second product
  is clicked: the click is not rejected, a second request is issued and two requests are
  pending.
\<close>

theorem second_click_counterexample:
  "submitting (run [ClickProduct pellet ''2025-09-01T08:00:00.000Z'', CloseModal] init)
   \<and> inflight (run [ClickProduct pellet ''2025-09-01T08:00:00.000Z'', CloseModal,
                     ClickProduct bevande ''2025-09-01T08:00:01.000Z''] init) = [FakeDoorK, FakeDoorK]
   \<and> requests (run [ClickProduct pellet ''2025-09-01T08:00:00.000Z'', CloseModal,
                     ClickProduct bevande ''2025-09-01T08:00:01.000Z''] init) =
       [notify [(''product'', ''pellet''), (''email'', ''info@coffeecore.it''),
                (''ts'', ''2025-09-01T08:00:00.000Z'')],
        notify [(''product'', ''bevande''), (''email'', ''info@coffeecore.it''),
                (''ts'', ''2025-09-01T08:00:01.000Z'')]]"
  by (simp add: products_def handleFakeDoor_def close_def init_def requests_def)
     (simp add: pellet_def bevande_def)

text \<open>
  Claim C3, amended. While \<^verbatim>\<open>submitting\<close> is true the submit button of the modal form
  is disabled, so a submit of the modal form does nothing: the state is unchanged and no
  request is issued. The product call-to-action has no such gate: a click while
  \<^verbatim>\<open>submitting\<close> is true leaves it true and issues one more request, as a click in
  any state does. The contact form does not read or write \<^verbatim>\<open>submitting\<close>: in every
  state a submit leaves \<^verbatim>\<open>submitting\<close> as it was, does the same whatever its value, and
  issues a request.
\<close>

theorem begin_while_submitting:
  "(submitting s \<longrightarrow> dispatch (SubmitModal email ts) s = s)
   \<and> (p \<in> set products \<longrightarrow>
        submitting (dispatch (ClickProduct p ts) s)
        \<and> inflight (dispatch (ClickProduct p ts) s) = inflight s @ [FakeDoorK]
        \<and> requests (dispatch (ClickProduct p ts) s) =
            requests s @ [notify [(''product'', id' p), (''email'', ''info@coffeecore.it''), (''ts'', ts)]])
   \<and> submitting (dispatch (SubmitContact nm email msg ts) s) = submitting s
   \<and> dispatch (SubmitContact nm email msg ts) (s\<lparr>submitting := b\<rparr>) =
       (dispatch (SubmitContact nm email msg ts) s)\<lparr>submitting := b\<rparr>
   \<and> inflight (dispatch (SubmitContact nm email msg ts) s) = inflight s @ [ContactK]
   \<and> requests (dispatch (SubmitContact nm email msg ts) s) =
       requests s @ [notify [(''product'', ''contact''), (''email'', email), (''name'', nm),
                             (''msg'', msg), (''ts'', ts)]]"
proof (intro conjI impI)
  assume "submitting s"
  then show "dispatch (SubmitModal email ts) s = s"
    by (simp split: option.splits)
next
  assume m: "p \<in> set products"
  show "submitting (dispatch (ClickProduct p ts) s)"
    using m by (simp add: handleFakeDoor_def)
  show "inflight (dispatch (ClickProduct p ts) s) = inflight s @ [FakeDoorK]"
    using m by (simp add: handleFakeDoor_def)
  show "requests (dispatch (ClickProduct p ts) s) =
      requests s @ [notify [(''product'', id' p), (''email'', ''info@coffeecore.it''), (''ts'', ts)]]"
    using m by (simp add: requests_handleFakeDoor)
next
  show "submitting (dispatch (SubmitContact nm email msg ts) s) = submitting s"
    by (simp add: contact_onSubmit_def)
  show "dispatch (SubmitContact nm email msg ts) (s\<lparr>submitting := b\<rparr>) =
      (dispatch (SubmitContact nm email msg ts) s)\<lparr>submitting := b\<rparr>"
    by (simp add: contact_onSubmit_def)
  show "inflight (dispatch (SubmitContact nm email msg ts) s) = inflight s @ [ContactK]"
    by (simp add: contact_onSubmit_def)
  show "requests (dispatch (SubmitContact nm email msg ts) s) =
      requests s @ [notify [(''product'', ''contact''), (''email'', email), (''name'', nm),
                            (''msg'', msg), (''ts'', ts)]]"
    by (simp add: requests_contact_onSubmit)
qed

theorem begin_while_submitting_witness:
  "submitting (handleFakeDoor pellet ''2025-09-01T08:00:00.000Z'' init)
   \<and> bevande \<in> set products
   \<and> dispatch (SubmitModal ''ada@example.org'' ''2025-09-01T08:00:01.000Z'')
        (handleFakeDoor pellet ''2025-09-01T08:00:00.000Z'' init)
      = handleFakeDoor pellet ''2025-09-01T08:00:00.000Z'' init
   \<and> inflight (dispatch (ClickProduct bevande ''2025-09-01T08:00:01.000Z'')
        (handleFakeDoor pellet ''2025-09-01T08:00:00.000Z'' init)) = [FakeDoorK, FakeDoorK]
   \<and> submitting (dispatch (SubmitContact ''Ada'' ''ada@example.org'' ''Ciao''
        ''2025-09-01T08:00:01.000Z'') init) = False
   \<and> inflight (dispatch (SubmitContact ''Ada'' ''ada@example.org'' ''Ciao''
        ''2025-09-01T08:00:01.000Z'') init) = [ContactK]"
proof -
  have s: "submitting (handleFakeDoor pellet ''2025-09-01T08:00:00.000Z'' init)"
    by (simp add: handleFakeDoor_def)
  have m: "bevande \<in> set products"
    by (simp add: products_def)
  have i: "inflight (handleFakeDoor pellet ''2025-09-01T08:00:00.000Z'' init) = [FakeDoorK]"
    by (simp add: handleFakeDoor_def init_def)
  have j: "submitting init = False" "inflight init = []"
    by (simp_all add: init_def)
  show ?thesis
    using s m
      begin_while_submitting [of "handleFakeDoor pellet ''2025-09-01T08:00:00.000Z'' init"
        "''ada@example.org''" "''2025-09-01T08:00:01.000Z''" bevande]
      begin_while_submitting [of init "''ada@example.org''" "''2025-09-01T08:00:01.000Z''" bevande
        "''Ada''" "''Ciao''"]
    by (simp add: i j)
qed

section \<open>Opening the modal\<close>

text \<open>
  Claim C4, as stated, fails: after the click that opens the modal for a product the
  submission state is not idle. \<^verbatim>\<open>submitting\<close> is true and a request is pending.
\<close>

theorem open_not_idle_counterexample:
  "submitting (run [ClickProduct pellet ''2025-09-01T08:00:00.000Z''] init)
   \<and> inflight (run [ClickProduct pellet ''2025-09-01T08:00:00.000Z''] init) = [FakeDoorK]"
  by (simp add: products_def handleFakeDoor_def init_def)

text \<open>
  Claim C4, amended. For every product \<open>p\<close>, the click handler sets \<^verbatim>\<open>open\<close> to true
  and \<^verbatim>\<open>clickedProduct\<close> to \<open>p\<close>, clears the confirmation message and sets
  \<^verbatim>\<open>submitting\<close> to true, since it issues the notification request in the same step. So
  at the moment the modal opens for a product, no confirmation message of an earlier
  submission is displayed.
\<close>

theorem open_sets_modal_and_submits:
  "open (handleFakeDoor p ts s)
   \<and> clickedProduct (handleFakeDoor p ts s) = Some p
   \<and> submitMsg (handleFakeDoor p ts s) = None
   \<and> submitting (handleFakeDoor p ts s)
   \<and> inflight (handleFakeDoor p ts s) = inflight s @ [FakeDoorK]"
  by (simp add: handleFakeDoor_def)

section \<open>Closing the modal\<close>

text \<open>
  Claim C5, as stated, fails: after a product is clicked and the modal is closed,
  \<^verbatim>\<open>open\<close> is false but \<^verbatim>\<open>clickedProduct\<close> is still that product.
\<close>

theorem close_keeps_product_counterexample:
  "open (run [ClickProduct pellet ''2025-09-01T08:00:00.000Z'', CloseModal] init) = False
   \<and> clickedProduct (run [ClickProduct pellet ''2025-09-01T08:00:00.000Z'', CloseModal] init)
       = Some pellet"
  by (simp add: products_def handleFakeDoor_def close_def init_def)

lemma resume_close:
  "resume k r (close s) =
     (case resume k r s of Normal s' \<Rightarrow> Normal (close s') | Throw e s' \<Rightarrow> Throw e (close s'))"
proof -
  consider (d) "r = Response True" | (f) "outcome r \<noteq> Delivered"
    using outcome_cases by blast
  then show ?thesis
  proof cases
    case d
    then show ?thesis
      by (cases k)
        (simp_all add: handleFakeDoor_resume_Delivered modal_onSubmit_resume_Delivered
          contact_resume_Normal close_def)
  next
    case f
    then show ?thesis
      by (cases k)
        (simp_all add: handleFakeDoor_resume_failed modal_onSubmit_resume_failed
          contact_resume_Normal close_def)
  qed
qed

lemma settle_close: "settle k r (close s) = close (settle k r s)"
proof (cases "k < length (inflight s)")
  case True
  define s0 where "s0 = s\<lparr>inflight := take k (inflight s) @ drop (Suc k) (inflight s)\<rparr>"
  obtain s' where s': "resume (inflight s ! k) r s0 = Normal s'"
    using resume_Normal by blast
  have c: "(close s)\<lparr>inflight := take k (inflight s) @ drop (Suc k) (inflight s)\<rparr> = close s0"
    by (simp add: close_def s0_def)
  have i: "inflight (close s) = inflight s"
    by (simp add: close_def)
  have "settle k r (close s) = close s'"
    using True by (simp add: settle_def i c resume_close s')
  moreover have "settle k r s = s'"
    using True s' by (simp add: settle_def s0_def)
  ultimately show ?thesis by simp
next
  case False
  then show ?thesis by (simp add: settle_def close_def)
qed

text \<open>
  Claim C5, amended. The close button sets \<^verbatim>\<open>open\<close> to false and leaves
  \<^verbatim>\<open>clickedProduct\<close> as it is. It cancels nothing: \<^verbatim>\<open>submitting\<close>, the pending
  requests and the effects so far are unchanged, and a request that settles after the close
  runs the same continuation as it would have without it.
\<close>

theorem close_keeps_product_and_requests:
  "open (close s) = False
   \<and> clickedProduct (close s) = clickedProduct s
   \<and> submitting (close s) = submitting s
   \<and> inflight (close s) = inflight s
   \<and> effects (close s) = effects s
   \<and> settle k r (close s) = close (settle k r s)"
  by (simp add: settle_close) (simp add: close_def)

section \<open>A request that settles after a later click\<close>

text \<open>
  The four cells are shared by all requests. A product is clicked, the modal is closed and
  a second product is clicked while the first request is pending; then the first request is
  delivered. Its continuation writes the confirmation message and ends \<^verbatim>\<open>submitting\<close>,
  in the modal of the second product, whose own request is still pending.
\<close>

lemma late_continuation_example:
  "run [ClickProduct pellet ''2025-09-01T08:00:00.000Z'', CloseModal,
        ClickProduct bevande ''2025-09-01T08:00:01.000Z'', Settle 0 (Response True)] init =
     \<lparr>open = True, clickedProduct = Some bevande, submitting = False,
      submitMsg = Some ''Grazie! Abbiamo registrato il tuo interesse e avvisato l'amministratore.'',
      inflight = [FakeDoorK],
      effects =
        [Fetch (notify [(''product'', ''pellet''), (''email'', ''info@coffeecore.it''),
                        (''ts'', ''2025-09-01T08:00:00.000Z'')]),
         Fetch (notify [(''product'', ''bevande''), (''email'', ''info@coffeecore.it''),
                        (''ts'', ''2025-09-01T08:00:01.000Z'')])],
      unhandled = []\<rparr>"
  by (simp add: products_def handleFakeDoor_def close_def init_def settle_def
      handleFakeDoor_resume_Delivered)
     (simp add: pellet_def bevande_def)

section \<open>Two calls of jumpAndHighlight on one section\<close>

lemma classList_fire:
  "classList (fire j q) i =
     (if i = j then map_option (classList_remove ''cc-highlight'') (classList q i) else classList q i)"
  by (simp add: fire_def split: option.splits)

lemma highlighted_fire_same: "\<not> highlighted (fire i q) i"
  by (simp add: highlighted_def classList_fire classList_remove_def split: option.splits)

lemma highlighted_fire_other: "\<not> highlighted q i \<Longrightarrow> \<not> highlighted (fire j q) i"
  by (auto simp: highlighted_def classList_fire classList_remove_def split: option.splits)

lemma fold_fire_keeps_off:
  "\<not> highlighted q i \<Longrightarrow> \<not> highlighted (fold (\<lambda>(due, j) q. fire j q) ts q) i"
proof (induction ts arbitrary: q)
  case Nil
  then show ?case by simp
next
  case (Cons x ts)
  obtain d j where x: "x = (d, j)"
    by (cases x)
  have "\<not> highlighted (fire j q) i"
    using Cons.prems by (rule highlighted_fire_other)
  then have "\<not> highlighted (fold (\<lambda>(due, j) q. fire j q) ts (fire j q)) i"
    by (rule Cons.IH)
  then show ?case
    by (simp add: x)
qed

lemma fold_fire_removes:
  "(d, i) \<in> set ts \<Longrightarrow> \<not> highlighted (fold (\<lambda>(due, j) q. fire j q) ts q) i"
proof (induction ts arbitrary: q)
  case Nil
  then show ?case by simp
next
  case (Cons x ts)
  show ?case
  proof (cases "x = (d, i)")
    case True
    have "\<not> highlighted (fire i q) i"
      by (rule highlighted_fire_same)
    then have "\<not> highlighted (fold (\<lambda>(due, j) q. fire j q) ts (fire i q)) i"
      by (rule fold_fire_keeps_off)
    then show ?thesis
      using True by simp
  next
    case False
    with Cons.prems have "(d, i) \<in> set ts" by simp
    then have "\<not> highlighted (fold (\<lambda>(due, j) q. fire j q) ts (fire (snd x) q)) i"
      by (rule Cons.IH)
    then show ?thesis
      by (cases x) simp
  qed
qed

lemma highlighted_timers_update: "highlighted (q\<lparr>timers := ts\<rparr>) i = highlighted q i"
  by (simp add: highlighted_def)

lemma advance_removes:
  "(d, i) \<in> set (timers pg) \<Longrightarrow> d \<le> now \<Longrightarrow> \<not> highlighted (advance now pg) i"
  unfolding advance_def highlighted_timers_update
  by (rule fold_fire_removes [of d]) simp

lemma jumpAndHighlight_present:
  "classList pg i = Some cl \<Longrightarrow>
   jumpAndHighlight now i pg =
     pg\<lparr>scrolledTo := scrolledTo pg @ [i],
        classList := (classList pg)(i \<mapsto> classList_add ''cc-highlight'' cl),
        timers := timers pg @ [(now + 1000, i)]\<rparr>"
  by (simp add: jumpAndHighlight_def)

lemma highlighted_jumpAndHighlight:
  "classList pg i = Some cl \<Longrightarrow> highlighted (jumpAndHighlight now i pg) i"
  by (simp add: jumpAndHighlight_present highlighted_def classList_add_def)

lemma timers_jumpAndHighlight:
  "classList pg i = Some cl \<Longrightarrow>
   timers (jumpAndHighlight now i pg) = timers pg @ [(now + 1000, i)]"
  by (simp add: jumpAndHighlight_present)

lemma present_jumpAndHighlight:
  "classList pg i = Some cl \<Longrightarrow>
   classList (jumpAndHighlight now i pg) i = Some (classList_add ''cc-highlight'' cl)"
  by (simp add: jumpAndHighlight_present)

text \<open>
  Claim C9, as stated, fails. \<^verbatim>\<open>jumpAndHighlight('contatti')\<close> is called at 0 ms and again
  at 500 ms: two timers are pending, for 1000 ms and for 1500 ms, and when the first fires at
  1000 ms the highlight is removed, 500 ms after the latest call.
\<close>

theorem retrigger_counterexample:
  "timers (jumpAndHighlight 500 ''contatti'' (jumpAndHighlight 0 ''contatti'' contatti_page)) =
     [(1000, ''contatti''), (1500, ''contatti'')]
   \<and> highlighted
       (jumpAndHighlight 500 ''contatti'' (jumpAndHighlight 0 ''contatti'' contatti_page)) ''contatti''
   \<and> highlighted
       (advance 1000
         (jumpAndHighlight 500 ''contatti'' (jumpAndHighlight 0 ''contatti'' contatti_page)))
       ''contatti'' = False"
  by (simp add: jumpAndHighlight_def contatti_page_def highlighted_def advance_def fire_def
      classList_add_def classList_remove_def)

text \<open>
  Claim C9, amended. Each call of \<^verbatim>\<open>jumpAndHighlight\<close> on a section that is present
  adds the highlight and sets one more timer, due 1000 ms after that call; no timer is
  cleared. So after a call at \<open>t1\<close> and a second call on the same section at \<open>t2\<close>, with
  \<open>t1 < t2 < t1 + 1000\<close>, two timers of these calls are pending, and the highlight is
  removed when the event loop runs at \<open>t1 + 1000\<close>, one duration after the first call; the
  timer of the second call is still pending then.
\<close>

theorem retrigger_stacks_timers:
  assumes "classList pg i = Some cl" and "t1 < t2" and "t2 < t1 + 1000"
  shows "timers (jumpAndHighlight t2 i (jumpAndHighlight t1 i pg)) =
           timers pg @ [(t1 + 1000, i), (t2 + 1000, i)]
         \<and> highlighted (jumpAndHighlight t2 i (jumpAndHighlight t1 i pg)) i
         \<and> \<not> highlighted (advance (t1 + 1000) (jumpAndHighlight t2 i (jumpAndHighlight t1 i pg))) i
         \<and> timers (advance (t1 + 1000) (jumpAndHighlight t2 i (jumpAndHighlight t1 i pg))) =
             filter (\<lambda>(due, j). \<not> due \<le> t1 + 1000) (timers pg) @ [(t2 + 1000, i)]"
proof -
  let ?p1 = "jumpAndHighlight t1 i pg"
  let ?p2 = "jumpAndHighlight t2 i ?p1"
  have c1: "classList ?p1 i = Some (classList_add ''cc-highlight'' cl)"
    using assms(1) by (rule present_jumpAndHighlight)
  have t: "timers ?p2 = timers pg @ [(t1 + 1000, i), (t2 + 1000, i)]"
    using timers_jumpAndHighlight [OF c1, of t2] timers_jumpAndHighlight [OF assms(1), of t1]
    by simp
  have h: "highlighted ?p2 i"
    using c1 by (rule highlighted_jumpAndHighlight)
  have "(t1 + 1000, i) \<in> set (timers ?p2)"
    by (simp add: t)
  then have r: "\<not> highlighted (advance (t1 + 1000) ?p2) i"
    by (rule advance_removes) simp
  have l: "timers (advance (t1 + 1000) ?p2) =
      filter (\<lambda>(due, j). \<not> due \<le> t1 + 1000) (timers pg) @ [(t2 + 1000, i)]"
    using assms(2) by (simp add: advance_def t)
  show ?thesis
    using t h r l by simp
qed

theorem retrigger_stacks_timers_witness:
  "classList contatti_page ''contatti'' =
     Some [''scroll-mt-20'', ''mx-auto'', ''max-w-7xl'', ''px-4'', ''sm:px-6'', ''lg:px-8'', ''py-16'']
   \<and> (0::nat) < 500 \<and> (500::nat) < 0 + 1000
   \<and> timers (jumpAndHighlight 500 ''contatti'' (jumpAndHighlight 0 ''contatti'' contatti_page)) =
       [(1000, ''contatti''), (1500, ''contatti'')]
   \<and> timers (advance 1000
        (jumpAndHighlight 500 ''contatti'' (jumpAndHighlight 0 ''contatti'' contatti_page))) =
       [(1500, ''contatti'')]"
proof -
  have c: "classList contatti_page ''contatti'' =
     Some [''scroll-mt-20'', ''mx-auto'', ''max-w-7xl'', ''px-4'', ''sm:px-6'', ''lg:px-8'', ''py-16'']"
    by (simp add: contatti_page_def)
  have a: "(0::nat) < 500" and b: "(500::nat) < 0 + 1000"
    by simp_all
  have e: "timers contatti_page = []"
    by (simp add: contatti_page_def)
  show ?thesis
    using c retrigger_stacks_timers [OF c a b]
    by (simp add: e)
qed

end
